theory Spec2Isabelle
  imports Main "HOL-Library.AList"
begin

section \<open>Data model\<close>

text \<open>
  The Go program keeps its actors on the heap and links them by pointers: a user points to
  its channel and to the groups it joined, a channel to its users and groups, a group to its
  members. The model keeps one store per struct type, a total function from references to
  objects, and a Go pointer is a reference (\<open>None\<close> for \<open>nil\<close>). \<open>NewChannel\<close> and
  \<open>NewGroup\<close> hand out the next unused reference.
\<close>

type_synonym user_ref = nat
type_synonym channel_ref = nat
type_synonym group_ref = nat

text \<open>
  What the JSON encoding shows of a \<open>User\<close>, a \<open>Channel\<close> or a \<open>Group\<close>: the three
  exported fields \<open>id\<close>, \<open>name\<close>, \<open>additionalInfo\<close>. An envelope refers to these structs by
  pointer; the model stores the exported fields as they stand when the envelope is encoded.
\<close>

record ident =
  ident_ID :: string
  ident_Name :: string
  ident_AdditionalInfo :: "string \<rightharpoonup> string"

text \<open>
  Modelled from the spec: the struct \<open>MessageInfo\<close> (the message body) is declared in a
  file that is not part of the sources at hand; its fields are those of the wire schema in
  section 6 of the spec.
\<close>

record message_info =
  mi_Type :: string
  mi_Text :: string

text \<open>
  Modelled from the spec: the struct \<open>Target\<close> is declared in a file that is not part of
  the sources at hand; its fields are those of the wire schema in section 6 of the spec.
\<close>

record target =
  t_Type :: string
  t_User :: "ident option"
  t_Group :: "ident option"

text \<open>
  Modelled from the spec: the struct \<open>ResponseInfo\<close> is declared in a file that is not
  part of the sources at hand; its fields are those of the wire schema in section 6 of the
  spec.
\<close>

record response_info =
  r_Status :: bool
  r_Message :: string

text \<open>
  Modelled from the spec: the struct \<open>Message\<close> (the envelope) is declared in a file that
  is not part of the sources at hand; its fields are those of the wire schema in section 6
  of the spec, each optional part a pointer that may be \<open>nil\<close>.
\<close>

record message =
  m_Command :: string
  m_User :: "ident option"
  m_Channel :: "ident option"
  m_Group :: "ident option"
  m_Message :: "message_info option"
  m_Target :: "target option"
  m_Response :: "response_info option"

text \<open>\<open>UserActivity\<close>: the type of the event and the envelope it is about.\<close>

record user_activity =
  a_Type :: string
  a_Message :: "message option"

text \<open>
  \<open>User\<close>. The outbound queue \<open>send\<close> is the list of frames enqueued and not yet
  written, oldest first, and a flag that says whether the queue has been closed; a frame
  is kept as the envelope it encodes (the encoding itself is outside the model).
  \<open>activity\<close> is the list of events handed to the activity stream.

  The queue holds 256 frames. A send on a full queue waits until the outbound duty has
  taken a frame: that delays the send and changes neither what is enqueued nor the order.
  The model has no clock and no outbound duty, and lets the list grow.
\<close>

record user =
  u_ID :: string
  u_Name :: string
  u_AdditionalInfo :: "string \<rightharpoonup> string"
  u_channel :: "channel_ref option"
  u_groups :: "string \<rightharpoonup> group_ref"
  u_send :: "message list"
  u_send_closed :: bool
  u_activity :: "user_activity list"

text \<open>
  Modelled from the spec: the struct \<open>Channel\<close> is declared in a file that is not part
  of the sources at hand; section 3 of the spec gives its fields.
\<close>

record channel =
  c_ID :: string
  c_Name :: string
  c_AdditionalInfo :: "string \<rightharpoonup> string"
  c_users :: "string \<rightharpoonup> user_ref"
  c_groups :: "string \<rightharpoonup> group_ref"

text \<open>
  Modelled from the spec: the struct \<open>Group\<close> is declared in a file that is not part
  of the sources at hand; section 3 of the spec gives its fields. The members are an
  association list from user id to user, in place of the Go map, because the group
  broadcast ranges over them.
\<close>

record group =
  g_ID :: string
  g_Name :: string
  g_AdditionalInfo :: "string \<rightharpoonup> string"
  g_users :: "(string \<times> user_ref) list"

text \<open>The whole program state: the server's registry and the three stores.\<close>

record state =
  server_channels :: "string \<rightharpoonup> channel_ref"
  channel_of :: "channel_ref \<Rightarrow> channel"
  group_of :: "group_ref \<Rightarrow> group"
  user_of :: "user_ref \<Rightarrow> user"
  channels_made :: nat
  groups_made :: nat

text \<open>The run-time panics a handler can end in.\<close>

datatype panic = NilPointerDereference | SendOnClosedChannel | CloseOfClosedChannel

section \<open>Constants\<close>

definition TypeUserActivityChannelConnect :: string where
  "TypeUserActivityChannelConnect = ''user-channel-connect''"

definition TypeUserActivityGroupJoin :: string where
  "TypeUserActivityGroupJoin = ''user-group-join''"

definition TypeUserActivityGroupLeave :: string where
  "TypeUserActivityGroupLeave = ''user-group-leave''"

definition TypeUserActivityMessageSend :: string where
  "TypeUserActivityMessageSend = ''user-message-send''"

definition TypeUserActivityDisconnect :: string where
  "TypeUserActivityDisconnect = ''user-disconnect''"

text \<open>
  Modelled from the spec: the command names, declared in a file that is not part of the
  sources at hand; the strings are those of the wire schema in section 6 of the spec.
\<close>

definition CommandUserConnect :: string where
  "CommandUserConnect = ''user-connect''"

definition CommandMessageSend :: string where
  "CommandMessageSend = ''message-send''"

definition CommandGroupJoin :: string where
  "CommandGroupJoin = ''group-join''"

definition CommandGroupLeave :: string where
  "CommandGroupLeave = ''group-leave''"

text \<open>
  Modelled from the spec: the target kinds and the message type, declared in a file that is
  not part of the sources at hand; the strings are those of the wire schema in section 6
  of the spec.
\<close>

definition TypeTargetDirect :: string where
  "TypeTargetDirect = ''direct''"

definition TypeTargetGroup :: string where
  "TypeTargetGroup = ''group''"

definition TypeMessageText :: string where
  "TypeMessageText = ''text''"

text \<open>
  Modelled from the spec: the response codes, declared in a file that is not part of the
  sources at hand. Section 6 of the spec names the three codes and not their wording; the
  strings here are the names, and no result below depends on the wording.
\<close>

definition ResponseMessageSuccess :: string where
  "ResponseMessageSuccess = ''success''"

definition ResponseMessageInvalidPayload :: string where
  "ResponseMessageInvalidPayload = ''invalidPayload''"

definition ResponseMessageUserTargetNotConnected :: string where
  "ResponseMessageUserTargetNotConnected = ''userTargetNotConnected''"

text \<open>
  Modelled from the spec: the two canned texts of the success replies, declared in a file
  that is not part of the sources at hand. Section 4.4 of the spec speaks of a canned text
  without giving it; the strings here stand for it, and no result below depends on them.
\<close>

definition MessageUserConnectSuccessful :: string where
  "MessageUserConnectSuccessful = ''connected''"

definition MessageGroupJoin :: string where
  "MessageGroupJoin = ''joined''"

section \<open>Store access\<close>

definition update_user :: "user_ref \<Rightarrow> (user \<Rightarrow> user) \<Rightarrow> state \<Rightarrow> state" where
  "update_user u f s = s\<lparr>user_of := (user_of s)(u := f (user_of s u))\<rparr>"

definition update_channel :: "channel_ref \<Rightarrow> (channel \<Rightarrow> channel) \<Rightarrow> state \<Rightarrow> state" where
  "update_channel c f s = s\<lparr>channel_of := (channel_of s)(c := f (channel_of s c))\<rparr>"

definition update_group :: "group_ref \<Rightarrow> (group \<Rightarrow> group) \<Rightarrow> state \<Rightarrow> state" where
  "update_group g f s = s\<lparr>group_of := (group_of s)(g := f (group_of s g))\<rparr>"

definition user_ident :: "user \<Rightarrow> ident" where
  "user_ident x =
     \<lparr>ident_ID = u_ID x, ident_Name = u_Name x, ident_AdditionalInfo = u_AdditionalInfo x\<rparr>"

definition group_ident :: "group \<Rightarrow> ident" where
  "group_ident x =
     \<lparr>ident_ID = g_ID x, ident_Name = g_Name x, ident_AdditionalInfo = g_AdditionalInfo x\<rparr>"

text \<open>\<open>NewUser\<close>: no identity, no channel, no groups, an empty and open queue.\<close>

definition NewUser :: user where
  "NewUser =
     \<lparr>u_ID = [], u_Name = [], u_AdditionalInfo = Map.empty, u_channel = None,
      u_groups = Map.empty, u_send = [], u_send_closed = False, u_activity = []\<rparr>"

text \<open>
  \<open>user.send <- []byte(message.encode())\<close>, a handler's send on the queue of its own
  user: the frame goes to the end of the queue. Only \<open>handleUserdisconnect\<close> closes the
  queue of a user, and it runs when the read loop of that user has ended, so the queue is
  open whenever a handler of the user runs.
\<close>

definition send_frame :: "user_ref \<Rightarrow> message \<Rightarrow> state \<Rightarrow> state" where
  "send_frame u m s = update_user u (\<lambda>x. x\<lparr>u_send := u_send x @ [m]\<rparr>) s"

text \<open>
  \<open>userTarget.send <- ...\<close> and \<open>userGroupTarget.send <- ...\<close>, a handler's send on
  the queue of a user it has looked up: that user may have disconnected, and a send on a
  closed queue panics.
\<close>

definition send_frame_to :: "user_ref \<Rightarrow> message \<Rightarrow> state \<Rightarrow> panic + state" where
  "send_frame_to r m s =
     (if u_send_closed (user_of s r) then Inl SendOnClosedChannel else Inr (send_frame r m s))"

text \<open>
  \<open>SetActivity\<close>: one event on the user's activity stream. The Go event holds a pointer
  to the envelope; the model records the envelope as it stands when the event is emitted.
  The two send handlers, where they deliver, later overwrite the target user and the target
  group of the same envelope, which a consumer that reads the event afterwards sees. The
  model does not follow that, and the results below on a delivered send set the activity
  streams aside.
\<close>

definition SetActivity :: "user_ref \<Rightarrow> string \<Rightarrow> message option \<Rightarrow> state \<Rightarrow> state" where
  "SetActivity u activityType m s =
     update_user u
       (\<lambda>x. x\<lparr>u_activity := u_activity x @ [\<lparr>a_Type = activityType, a_Message = m\<rparr>]\<rparr>) s"

section \<open>Server (server.go)\<close>

definition NewServer :: state where
  "NewServer =
     \<lparr>server_channels = Map.empty,
      channel_of = (\<lambda>_. \<lparr>c_ID = [], c_Name = [], c_AdditionalInfo = Map.empty,
                          c_users = Map.empty, c_groups = Map.empty\<rparr>),
      group_of = (\<lambda>_. \<lparr>g_ID = [], g_Name = [], g_AdditionalInfo = Map.empty, g_users = []\<rparr>),
      user_of = (\<lambda>_. NewUser),
      channels_made = 0,
      groups_made = 0\<rparr>"

definition findChannelByID :: "state \<Rightarrow> string \<Rightarrow> channel_ref option" where
  "findChannelByID s channelID = server_channels s channelID"

definition handleRegisterChannel :: "channel_ref \<Rightarrow> state \<Rightarrow> state" where
  "handleRegisterChannel c s =
     (case server_channels s (c_ID (channel_of s c)) of
        None \<Rightarrow> s\<lparr>server_channels := (server_channels s)(c_ID (channel_of s c) \<mapsto> c)\<rparr>
      | Some _ \<Rightarrow> s)"

definition handleUnregisterChannel :: "channel_ref \<Rightarrow> state \<Rightarrow> state" where
  "handleUnregisterChannel c s =
     s\<lparr>server_channels := (server_channels s)(c_ID (channel_of s c) := None)\<rparr>"

text \<open>One turn of \<open>Server.Run\<close>: the loop takes one message from one of its two mailboxes.\<close>

datatype server_event = RegisterChannel channel_ref | UnregisterChannel channel_ref

fun Server_Run :: "server_event \<Rightarrow> state \<Rightarrow> state" where
  "Server_Run (RegisterChannel c) s = handleRegisterChannel c s"
| "Server_Run (UnregisterChannel c) s = handleUnregisterChannel c s"

section \<open>Channel and group loops\<close>

text \<open>
  The files of the channel and of the group are missing from the sources. The handlers of
  the user call two constructors and two lookups of theirs and send on six of their mailboxes; what
  these do is taken from sections 3, 4.2 and 4.3 of the spec: each loop keeps the map it
  owns, keyed by the id of the object it is handed.
\<close>

text \<open>
  Modelled from the spec: \<open>NewChannel\<close> (missing channel file) makes a channel with
  the given id, name and additional info and with no users and no groups.
\<close>

definition NewChannel ::
  "string \<Rightarrow> string \<Rightarrow> (string \<rightharpoonup> string) \<Rightarrow> state \<Rightarrow> channel_ref \<times> state" where
  "NewChannel cid name info s =
     (channels_made s,
      s\<lparr>channel_of := (channel_of s)(channels_made s :=
           \<lparr>c_ID = cid, c_Name = name, c_AdditionalInfo = info,
            c_users = Map.empty, c_groups = Map.empty\<rparr>),
        channels_made := Suc (channels_made s)\<rparr>)"

text \<open>
  Modelled from the spec: \<open>NewGroup\<close> (missing group file) makes a group with the
  given id, name and additional info and with no members.
\<close>

definition NewGroup ::
  "string \<Rightarrow> string \<Rightarrow> (string \<rightharpoonup> string) \<Rightarrow> state \<Rightarrow> group_ref \<times> state" where
  "NewGroup gid name info s =
     (groups_made s,
      s\<lparr>group_of := (group_of s)(groups_made s :=
           \<lparr>g_ID = gid, g_Name = name, g_AdditionalInfo = info, g_users = []\<rparr>),
        groups_made := Suc (groups_made s)\<rparr>)"

text \<open>
  Modelled from the spec: \<open>findUserByID\<close> (missing channel file), the read-only
  lookup of a user of the channel by id; \<open>nil\<close> when the id is absent.
\<close>

definition findUserByID :: "state \<Rightarrow> channel_ref \<Rightarrow> string \<Rightarrow> user_ref option" where
  "findUserByID s c userID = c_users (channel_of s c) userID"

text \<open>
  Modelled from the spec: \<open>findGroupByID\<close> (missing channel file), the read-only
  lookup of a group of the channel by id; \<open>nil\<close> when the id is absent.
\<close>

definition findGroupByID :: "state \<Rightarrow> channel_ref \<Rightarrow> string \<Rightarrow> group_ref option" where
  "findGroupByID s c groupID = c_groups (channel_of s c) groupID"

text \<open>
  Modelled from the spec: what the channel loop (missing channel file) does with a user received
  on \<open>registerUser\<close>: it enters the user under the user's id; an entry of the same id is
  overwritten (section 3 of the spec).
\<close>

definition channel_registerUser :: "channel_ref \<Rightarrow> user_ref \<Rightarrow> state \<Rightarrow> state" where
  "channel_registerUser c u s =
     update_channel c (\<lambda>x. x\<lparr>c_users := (c_users x)(u_ID (user_of s u) \<mapsto> u)\<rparr>) s"

text \<open>
  Modelled from the spec: what the channel loop (missing channel file) does with a user received
  on \<open>unregisterUser\<close>: it removes the entry of the user's id.
\<close>

definition channel_unregisterUser :: "channel_ref \<Rightarrow> user_ref \<Rightarrow> state \<Rightarrow> state" where
  "channel_unregisterUser c u s =
     update_channel c (\<lambda>x. x\<lparr>c_users := (c_users x)(u_ID (user_of s u) := None)\<rparr>) s"

text \<open>
  Modelled from the spec: what the channel loop (missing channel file) does with a group received
  on \<open>registerGroup\<close>: it enters the group under the group's id.
\<close>

definition channel_registerGroup :: "channel_ref \<Rightarrow> group_ref \<Rightarrow> state \<Rightarrow> state" where
  "channel_registerGroup c g s =
     update_channel c (\<lambda>x. x\<lparr>c_groups := (c_groups x)(g_ID (group_of s g) \<mapsto> g)\<rparr>) s"

text \<open>
  Modelled from the spec: what the channel loop (missing channel file) does with a group received
  on \<open>unregisterGroup\<close>: it removes the entry of the group's id.
\<close>

definition channel_unregisterGroup :: "channel_ref \<Rightarrow> group_ref \<Rightarrow> state \<Rightarrow> state" where
  "channel_unregisterGroup c g s =
     update_channel c (\<lambda>x. x\<lparr>c_groups := (c_groups x)(g_ID (group_of s g) := None)\<rparr>) s"

text \<open>
  Modelled from the spec: what the group loop (missing group file) does with a user received on
  \<open>registerUser\<close>: it enters the user among the members under the user's id.
\<close>

definition group_registerUser :: "group_ref \<Rightarrow> user_ref \<Rightarrow> state \<Rightarrow> state" where
  "group_registerUser g u s =
     update_group g (\<lambda>x. x\<lparr>g_users := AList.update (u_ID (user_of s u)) u (g_users x)\<rparr>) s"

text \<open>
  Modelled from the spec: what the group loop (missing group file) does with a user received on
  \<open>unregisterUser\<close>: it removes the member entered under the user's id.
\<close>

definition group_unregisterUser :: "group_ref \<Rightarrow> user_ref \<Rightarrow> state \<Rightarrow> state" where
  "group_unregisterUser g u s =
     update_group g (\<lambda>x. x\<lparr>g_users := AList.delete (u_ID (user_of s u)) (g_users x)\<rparr>) s"

section \<open>User handlers\<close>

text \<open>
  A send on the mailbox of another loop (\<open>user.server.registerChannel <- ...\<close>,
  \<open>user.channel.registerUser <- user\<close>, \<open>group.registerUser <- user\<close>, ...) returns when
  that loop has taken the message; the loop handles it while the handler runs on. Where the
  handler reads nothing of what the loop owns after the send, the order of the two cannot
  be seen, and the model lets the loop handle the message at the point of the send. The one
  handler that does read is \<open>handleGroupLeave\<close>, see there. A handler that reaches through
  a \<open>nil\<close> pointer panics.
\<close>

definition response :: "bool \<Rightarrow> string \<Rightarrow> response_info option" where
  "response st msg = Some \<lparr>r_Status = st, r_Message = msg\<rparr>"

definition handleUserConnect :: "user_ref \<Rightarrow> message \<Rightarrow> state \<Rightarrow> state" where
  "handleUserConnect u m s =
     (case (m_User m, m_Channel m) of
        (Some mu, Some mc) \<Rightarrow>
          (let s1 = update_user u
                      (\<lambda>x. x\<lparr>u_ID := ident_ID mu, u_Name := ident_Name mu,
                              u_AdditionalInfo := ident_AdditionalInfo mu\<rparr>) s;
               (c, s2) = (case findChannelByID s1 (ident_ID mc) of
                            Some c \<Rightarrow> (c, s1)
                          | None \<Rightarrow>
                              (let (c, s') = NewChannel (ident_ID mc) (ident_Name mc)
                                               (ident_AdditionalInfo mc) s1
                               in (c, Server_Run (RegisterChannel c) s')));
               s3 = update_user u (\<lambda>x. x\<lparr>u_channel := Some c\<rparr>) s2;
               s4 = channel_registerUser c u s3
           in send_frame u
                (m\<lparr>m_Message := Some \<lparr>mi_Type = TypeMessageText,
                                       mi_Text = MessageUserConnectSuccessful\<rparr>,
                   m_Response := response True ResponseMessageSuccess\<rparr>) s4)
      | _ \<Rightarrow> send_frame u (m\<lparr>m_Response := response False ResponseMessageInvalidPayload\<rparr>) s)"

definition handleGroupJoin :: "user_ref \<Rightarrow> message \<Rightarrow> state \<Rightarrow> panic + state" where
  "handleGroupJoin u m s =
     (case m_Group m of
        None \<Rightarrow> Inr s
      | Some mg \<Rightarrow>
          (case u_channel (user_of s u) of
             None \<Rightarrow> Inl NilPointerDereference
           | Some c \<Rightarrow>
               (let (g, s1) = (case findGroupByID s c (ident_ID mg) of
                                 Some g \<Rightarrow> (g, s)
                               | None \<Rightarrow> NewGroup (ident_ID mg) (ident_Name mg)
                                           (ident_AdditionalInfo mg) s);
                    s2 = channel_registerGroup c g s1;
                    s3 = group_registerUser g u s2;
                    s4 = update_user u
                           (\<lambda>x. x\<lparr>u_groups := (u_groups x)(g_ID (group_of s3 g) \<mapsto> g)\<rparr>) s3
                in Inr (send_frame u
                          (m\<lparr>m_User := Some (user_ident (user_of s4 u)),
                             m_Message := Some \<lparr>mi_Type = TypeMessageText,
                                                 mi_Text = MessageGroupJoin\<rparr>,
                             m_Response := response True ResponseMessageSuccess\<rparr>) s4))))"

text \<open>
  \<open>handleGroupLeave\<close> hands the user to the group loop on \<open>group.unregisterUser\<close> and
  reads \<open>len(group.users)\<close> in its next statement. The send returns when the loop has
  taken the user, not when it has deleted it: the read and the delete are not ordered, and
  the handler, which runs on from the send, comes first. The model follows that order: the
  length is read with the member still entered, and the group loop deletes it after that.
\<close>

definition handleGroupLeave :: "user_ref \<Rightarrow> message \<Rightarrow> state \<Rightarrow> panic + state" where
  "handleGroupLeave u m s =
     (case m_Group m of
        Some mg \<Rightarrow>
          (case u_channel (user_of s u) of
             None \<Rightarrow> Inl NilPointerDereference
           | Some c \<Rightarrow>
               (case findGroupByID s c (ident_ID mg) of
                  Some g \<Rightarrow>
                    (let s1 = update_user u
                                (\<lambda>x. x\<lparr>u_groups := (u_groups x)(u_ID x := None)\<rparr>) s;
                         s2 = (if length (g_users (group_of s1 g)) = 0
                               then channel_unregisterGroup c g s1 else s1);
                         s3 = group_unregisterUser g u s2
                     in Inr (send_frame u
                               (m\<lparr>m_User := Some (user_ident (user_of s3 u)),
                                  m_Group := Some (group_ident (group_of s3 g)),
                                  m_Response := response True ResponseMessageSuccess\<rparr>) s3))
                | None \<Rightarrow> Inr s))
      | None \<Rightarrow>
          Inr (send_frame u (m\<lparr>m_Response := response False ResponseMessageInvalidPayload\<rparr>) s))"

definition handleSendDirectMessage :: "user_ref \<Rightarrow> message \<Rightarrow> state \<Rightarrow> panic + state" where
  "handleSendDirectMessage u m s =
     (case m_Target m of
        None \<Rightarrow> Inl NilPointerDereference
      | Some t \<Rightarrow>
          (case t_User t of
             None \<Rightarrow> Inr s
           | Some tu \<Rightarrow>
               (case u_channel (user_of s u) of
                  None \<Rightarrow> Inl NilPointerDereference
                | Some c \<Rightarrow>
                    (case findUserByID s c (ident_ID tu) of
                       None \<Rightarrow>
                         Inr (send_frame u
                                (m\<lparr>m_Response :=
                                      response False ResponseMessageUserTargetNotConnected,
                                   m_User := Some (user_ident (user_of s u))\<rparr>) s)
                     | Some userTarget \<Rightarrow>
                         (case send_frame_to userTarget m s of
                            Inl e \<Rightarrow> Inl e
                          | Inr s1 \<Rightarrow>
                              Inr (send_frame u
                                     (m\<lparr>m_User := Some (user_ident (user_of s1 u)),
                                        m_Target := Some (t\<lparr>t_User :=
                                           Some (user_ident (user_of s1 userTarget))\<rparr>),
                                        m_Response := response True ResponseMessageSuccess\<rparr>)
                                     s1))))))"

text \<open>
  The loop of \<open>handlerSendGroupMessage\<close> over the members of the group, in the order of the
  association list; a panic of a send ends it. Go ranges over a map in no fixed order; the
  lemmas \<open>range_send_open\<close> and \<open>range_send_closed\<close> below show that the result does not
  depend on the order.
\<close>

fun range_send :: "user_ref \<Rightarrow> message \<Rightarrow> user_ref list \<Rightarrow> state \<Rightarrow> panic + state" where
  "range_send u m [] s = Inr s"
| "range_send u m (userGroupTarget # rest) s =
     (if u_ID (user_of s userGroupTarget) \<noteq> u_ID (user_of s u)
      then (case send_frame_to userGroupTarget m s of
              Inl e \<Rightarrow> Inl e
            | Inr s' \<Rightarrow> range_send u m rest s')
      else range_send u m rest s)"

definition handlerSendGroupMessage :: "user_ref \<Rightarrow> message \<Rightarrow> state \<Rightarrow> panic + state" where
  "handlerSendGroupMessage u m s =
     (case m_Target m of
        None \<Rightarrow> Inl NilPointerDereference
      | Some t \<Rightarrow>
          (case t_Group t of
             None \<Rightarrow> Inr s
           | Some tg \<Rightarrow>
               (case u_channel (user_of s u) of
                  None \<Rightarrow> Inl NilPointerDereference
                | Some c \<Rightarrow>
                    (case findGroupByID s c (ident_ID tg) of
                       None \<Rightarrow> Inr s
                     | Some groupTarget \<Rightarrow>
                         (let m1 = m\<lparr>m_User := Some (user_ident (user_of s u)),
                                    m_Target := Some (t\<lparr>t_Group :=
                                       Some (group_ident (group_of s groupTarget))\<rparr>)\<rparr>
                          in case range_send u m1
                                    (map snd (g_users (group_of s groupTarget))) s of
                               Inl e \<Rightarrow> Inl e
                             | Inr s1 \<Rightarrow>
                                 Inr (send_frame u
                                        (m1\<lparr>m_Response :=
                                              response True ResponseMessageSuccess\<rparr>)
                                        s1))))))"

definition handleSendMessage :: "user_ref \<Rightarrow> message \<Rightarrow> state \<Rightarrow> panic + state" where
  "handleSendMessage u m s =
     (case (m_Message m, m_Target m) of
        (Some _, Some t) \<Rightarrow>
          (if t_Type t = TypeTargetDirect then handleSendDirectMessage u m s
           else if t_Type t = TypeTargetGroup then handlerSendGroupMessage u m s
           else Inr s)
      | _ \<Rightarrow>
          Inr (send_frame u (m\<lparr>m_Response := response False ResponseMessageInvalidPayload\<rparr>) s))"

text \<open>
  \<open>handleUserdisconnect\<close>, which \<open>ReadPump\<close> runs when its loop has ended: the disconnect
  event, the request to the channel to unregister the user, and the close of the queue.
  Closing a closed queue panics. The groups of the user are not told.
\<close>

definition handleUserdisconnect :: "user_ref \<Rightarrow> state \<Rightarrow> panic + state" where
  "handleUserdisconnect u s =
     (let s1 = SetActivity u TypeUserActivityDisconnect None s;
          s2 = (case u_channel (user_of s1 u) of
                  None \<Rightarrow> s1
                | Some c \<Rightarrow> channel_unregisterUser c u s1)
      in if u_send_closed (user_of s2 u) then Inl CloseOfClosedChannel
         else Inr (update_user u (\<lambda>x. x\<lparr>u_send_closed := True\<rparr>) s2))"

text \<open>
  One turn of the loop of \<open>ReadPump\<close>, for a frame that decoded to the envelope \<open>m\<close>: the
  activity event first, then the handler of the command.
\<close>

definition ReadPump :: "user_ref \<Rightarrow> message \<Rightarrow> state \<Rightarrow> panic + state" where
  "ReadPump u m s =
     (if m_Command m = CommandUserConnect then
        Inr (handleUserConnect u m (SetActivity u TypeUserActivityChannelConnect (Some m) s))
      else if m_Command m = CommandMessageSend then
        (let s' = SetActivity u TypeUserActivityMessageSend (Some m) s
         in if u_channel (user_of s' u) \<noteq> None then handleSendMessage u m s' else Inr s')
      else if m_Command m = CommandGroupJoin then
        (let s' = SetActivity u TypeUserActivityGroupJoin (Some m) s
         in if u_channel (user_of s' u) \<noteq> None then handleGroupJoin u m s' else Inr s')
      else if m_Command m = CommandGroupLeave then
        (let s' = SetActivity u TypeUserActivityGroupLeave (Some m) s
         in if u_channel (user_of s' u) \<noteq> None then handleGroupLeave u m s' else Inr s')
      else Inr s)"

text \<open>
  A schedule: the frames of several connections, handled one after the other from the state
  before; a panic of a handler ends it.
\<close>

fun run :: "(user_ref \<times> message) list \<Rightarrow> state \<Rightarrow> panic + state" where
  "run [] s = Inr s"
| "run ((u, m) # rest) s =
     (case ReadPump u m s of Inl e \<Rightarrow> Inl e | Inr s' \<Rightarrow> run rest s')"

section \<open>Example frames and states\<close>

text \<open>
  Frames as a client sends them, and the states a fresh server reaches by handling them in
  order. The theorems below are instantiated at these states.
\<close>

definition ident_of_id :: "string \<Rightarrow> ident" where
  "ident_of_id x = \<lparr>ident_ID = x, ident_Name = [], ident_AdditionalInfo = Map.empty\<rparr>"

definition frame :: "string \<Rightarrow> message" where
  "frame cmd =
     \<lparr>m_Command = cmd, m_User = None, m_Channel = None, m_Group = None,
      m_Message = None, m_Target = None, m_Response = None\<rparr>"

definition connect_frame :: "string \<Rightarrow> string \<Rightarrow> message" where
  "connect_frame uid cid =
     (frame CommandUserConnect)
       \<lparr>m_User := Some (ident_of_id uid), m_Channel := Some (ident_of_id cid)\<rparr>"

definition join_frame :: "string \<Rightarrow> message" where
  "join_frame gid = (frame CommandGroupJoin)\<lparr>m_Group := Some (ident_of_id gid)\<rparr>"

definition leave_frame :: "string \<Rightarrow> message" where
  "leave_frame gid = (frame CommandGroupLeave)\<lparr>m_Group := Some (ident_of_id gid)\<rparr>"

definition direct_frame :: "string \<Rightarrow> string \<Rightarrow> message" where
  "direct_frame uid txt =
     (frame CommandMessageSend)
       \<lparr>m_Message := Some \<lparr>mi_Type = TypeMessageText, mi_Text = txt\<rparr>,
        m_Target := Some \<lparr>t_Type = TypeTargetDirect, t_User = Some (ident_of_id uid),
                            t_Group = None\<rparr>\<rparr>"

definition group_frame :: "string \<Rightarrow> string \<Rightarrow> message" where
  "group_frame gid txt =
     (frame CommandMessageSend)
       \<lparr>m_Message := Some \<lparr>mi_Type = TypeMessageText, mi_Text = txt\<rparr>,
        m_Target := Some \<lparr>t_Type = TypeTargetGroup, t_User = None,
                            t_Group = Some (ident_of_id gid)\<rparr>\<rparr>"

text \<open>The state after a schedule on a fresh server (the schedules below do not panic).\<close>

definition after :: "(user_ref \<times> message) list \<Rightarrow> state" where
  "after schedule = projr (run schedule NewServer)"

text \<open>Connections 1 and 2 are the users \<open>u1\<close> and \<open>u2\<close> of channel \<open>c1\<close>.\<close>

definition two_connected :: state where
  "two_connected =
     after [(1, connect_frame ''u1'' ''c1''), (2, connect_frame ''u2'' ''c1'')]"

text \<open>Both have joined the group \<open>g1\<close>.\<close>

definition two_in_group :: state where
  "two_in_group =
     after [(1, connect_frame ''u1'' ''c1''), (2, connect_frame ''u2'' ''c1''),
            (1, join_frame ''g1''), (2, join_frame ''g1'')]"

text \<open>Both have joined \<open>g1\<close>, and connection 2 has disconnected since.\<close>

definition member_disconnected :: state where
  "member_disconnected = projr (handleUserdisconnect 2 two_in_group)"

text \<open>
  Connection 1 connected as \<open>u1\<close>, connected again as \<open>u9\<close>, and has disconnected: the
  channel unregistered the id \<open>u9\<close>, and the entry of \<open>u1\<close> is still there.
\<close>

definition stale_entry :: state where
  "stale_entry =
     projr (handleUserdisconnect 1
       (after [(1, connect_frame ''u1'' ''c1''), (2, connect_frame ''u2'' ''c1''),
               (1, connect_frame ''u9'' ''c1'')]))"

text \<open>
  Two connections that both connected with the user id \<open>u1\<close>; the second one joined the
  group \<open>g1\<close>.
\<close>

definition same_id_in_group :: state where
  "same_id_in_group =
     after [(1, connect_frame ''u1'' ''c1''), (2, connect_frame ''u1'' ''c1''),
            (2, join_frame ''g1'')]"

section \<open>Evaluation of the examples\<close>

lemmas constant_defs =
  CommandUserConnect_def CommandMessageSend_def CommandGroupJoin_def CommandGroupLeave_def
  TypeTargetDirect_def TypeTargetGroup_def TypeMessageText_def
  TypeUserActivityChannelConnect_def TypeUserActivityGroupJoin_def
  TypeUserActivityGroupLeave_def TypeUserActivityMessageSend_def
  ResponseMessageSuccess_def ResponseMessageInvalidPayload_def
  ResponseMessageUserTargetNotConnected_def TypeUserActivityDisconnect_def

lemmas store_defs =
  send_frame_def send_frame_to_def SetActivity_def update_user_def update_channel_def update_group_def
  user_ident_def group_ident_def response_def

lemmas loop_defs =
  findChannelByID_def findGroupByID_def findUserByID_def NewChannel_def NewGroup_def
  channel_registerUser_def channel_unregisterUser_def channel_registerGroup_def
  channel_unregisterGroup_def group_registerUser_def group_unregisterUser_def
  handleRegisterChannel_def handleUnregisterChannel_def

lemmas handler_defs =
  ReadPump_def handleUserConnect_def handleGroupJoin_def handleGroupLeave_def
  handleSendMessage_def handleSendDirectMessage_def handlerSendGroupMessage_def
  handleUserdisconnect_def

lemmas example_defs =
  after_def NewServer_def NewUser_def ident_of_id_def frame_def connect_frame_def
  join_frame_def leave_frame_def direct_frame_def group_frame_def

lemmas eval_defs = constant_defs store_defs loop_defs handler_defs example_defs Let_def

text \<open>The schedules of the example states run without a panic.\<close>

lemma two_connected_reached:
  "run [(1, connect_frame ''u1'' ''c1''), (2, connect_frame ''u2'' ''c1'')] NewServer =
     Inr two_connected"
  by (simp add: two_connected_def eval_defs)

lemma two_in_group_reached:
  "run [(1, connect_frame ''u1'' ''c1''), (2, connect_frame ''u2'' ''c1''),
        (1, join_frame ''g1''), (2, join_frame ''g1'')] NewServer = Inr two_in_group"
  by (simp add: two_in_group_def eval_defs)

lemma member_disconnected_reached:
  "handleUserdisconnect 2 two_in_group = Inr member_disconnected"
  by (simp add: member_disconnected_def two_in_group_def eval_defs)

lemma stale_entry_reached:
  "run [(1, connect_frame ''u1'' ''c1''), (2, connect_frame ''u2'' ''c1''),
        (1, connect_frame ''u9'' ''c1'')] NewServer =
     Inr (after [(1, connect_frame ''u1'' ''c1''), (2, connect_frame ''u2'' ''c1''),
                 (1, connect_frame ''u9'' ''c1'')]) \<and>
   handleUserdisconnect 1
     (after [(1, connect_frame ''u1'' ''c1''), (2, connect_frame ''u2'' ''c1''),
             (1, connect_frame ''u9'' ''c1'')]) = Inr stale_entry"
  by (simp add: stale_entry_def eval_defs)

lemma same_id_in_group_reached:
  "run [(1, connect_frame ''u1'' ''c1''), (2, connect_frame ''u1'' ''c1''),
        (2, join_frame ''g1'')] NewServer = Inr same_id_in_group"
  by (simp add: same_id_in_group_def eval_defs)

section \<open>The server registry\<close>

lemma handleRegisterChannel_present:
  "server_channels s (c_ID (channel_of s c)) = Some c' \<Longrightarrow> handleRegisterChannel c s = s"
  by (simp add: handleRegisterChannel_def)

lemma handleRegisterChannel_twice:
  "c_ID (channel_of s c') = c_ID (channel_of s c) \<Longrightarrow>
   handleRegisterChannel c' (handleRegisterChannel c s) = handleRegisterChannel c s"
  by (simp add: handleRegisterChannel_def split: option.splits)

lemma handleUnregisterChannel_absent:
  "server_channels s (c_ID (channel_of s c)) = None \<Longrightarrow> handleUnregisterChannel c s = s"
  by (simp add: handleUnregisterChannel_def fun_upd_idem)

text \<open>
  Claim C8. Registering a channel whose id the registry already holds leaves the state as
  it is; so does registering any channel of the same id after a first registration (the
  same instance twice included), and so does unregistering a channel whose id the registry
  does not hold. The registry is a map, so an id never has more than one entry.
\<close>

theorem registry_register_unregister_noop:
  "(server_channels s (c_ID (channel_of s c)) \<noteq> None \<longrightarrow> handleRegisterChannel c s = s) \<and>
   (c_ID (channel_of s c') = c_ID (channel_of s c) \<longrightarrow>
      handleRegisterChannel c' (handleRegisterChannel c s) = handleRegisterChannel c s) \<and>
   (server_channels s (c_ID (channel_of s c)) = None \<longrightarrow> handleUnregisterChannel c s = s)"
  using handleRegisterChannel_present [of s c] handleRegisterChannel_twice [of s c' c]
    handleUnregisterChannel_absent [of s c]
  by auto

theorem registry_register_unregister_noop_witness:
  "server_channels two_connected (c_ID (channel_of two_connected 0)) = Some 0 \<and>
   handleRegisterChannel 0 two_connected = two_connected \<and>
   handleRegisterChannel 0 (handleRegisterChannel 0 two_connected) =
     handleRegisterChannel 0 two_connected \<and>
   server_channels (snd (NewChannel ''c2'' [] Map.empty two_connected)) ''c2'' = None \<and>
   c_ID (channel_of (snd (NewChannel ''c2'' [] Map.empty two_connected)) 1) = ''c2'' \<and>
   handleUnregisterChannel 1 (snd (NewChannel ''c2'' [] Map.empty two_connected)) =
     snd (NewChannel ''c2'' [] Map.empty two_connected)"
  using registry_register_unregister_noop [of two_connected 0 0]
    registry_register_unregister_noop
      [of "snd (NewChannel ''c2'' [] Map.empty two_connected)" 1 1]
  by (simp add: two_connected_def eval_defs)

section \<open>Missing fields and missing connections\<close>

text \<open>
  Claim C4. A connect command without the user field or without the channel field: the
  handler returns the state it was given with one frame more on the sender's queue, the
  envelope with \<open>status = false\<close> and the code \<open>invalidPayload\<close>. Nothing else differs:
  the identity fields and the channel of the user, the registry, the channel store and the
  number of channels made are those of the state before.
\<close>

theorem connect_missing_field:
  assumes "m_User m = None \<or> m_Channel m = None"
  shows "handleUserConnect u m s =
           s\<lparr>user_of := (user_of s)(u := (user_of s u)\<lparr>u_send := u_send (user_of s u) @
                 [m\<lparr>m_Response := Some \<lparr>r_Status = False,
                       r_Message = ResponseMessageInvalidPayload\<rparr>\<rparr>]\<rparr>)\<rparr>"
  using assms
  by (auto simp: handleUserConnect_def send_frame_def update_user_def response_def
      split: option.splits)

theorem connect_missing_field_witness:
  "m_Channel ((frame CommandUserConnect)\<lparr>m_User := Some (ident_of_id ''u1'')\<rparr>) = None \<and>
   handleUserConnect 1 ((frame CommandUserConnect)\<lparr>m_User := Some (ident_of_id ''u1'')\<rparr>)
       NewServer =
     NewServer\<lparr>user_of := (user_of NewServer)(1 := (user_of NewServer 1)
        \<lparr>u_send := u_send (user_of NewServer 1) @
           [(frame CommandUserConnect)
              \<lparr>m_User := Some (ident_of_id ''u1''),
               m_Response := Some \<lparr>r_Status = False,
                  r_Message = ResponseMessageInvalidPayload\<rparr>\<rparr>]\<rparr>)\<rparr>"
  using connect_missing_field
    [of "(frame CommandUserConnect)\<lparr>m_User := Some (ident_of_id ''u1'')\<rparr>" 1 NewServer]
  by (simp add: frame_def)

text \<open>
  Claim C10. A send, group-join or group-leave command on a connection whose channel is
  still \<open>nil\<close>: \<open>ReadPump\<close> emits the activity event of the command and calls no handler.
  The state after it is the state before with that one event more on the activity stream of
  the user; no frame is enqueued and nothing else changes.
\<close>

theorem not_connected_only_activity:
  assumes "u_channel (user_of s u) = None"
  shows "(m_Command m = CommandMessageSend \<longrightarrow>
            ReadPump u m s = Inr (s\<lparr>user_of := (user_of s)(u := (user_of s u)
              \<lparr>u_activity := u_activity (user_of s u) @
                 [\<lparr>a_Type = TypeUserActivityMessageSend, a_Message = Some m\<rparr>]\<rparr>)\<rparr>)) \<and>
         (m_Command m = CommandGroupJoin \<longrightarrow>
            ReadPump u m s = Inr (s\<lparr>user_of := (user_of s)(u := (user_of s u)
              \<lparr>u_activity := u_activity (user_of s u) @
                 [\<lparr>a_Type = TypeUserActivityGroupJoin, a_Message = Some m\<rparr>]\<rparr>)\<rparr>)) \<and>
         (m_Command m = CommandGroupLeave \<longrightarrow>
            ReadPump u m s = Inr (s\<lparr>user_of := (user_of s)(u := (user_of s u)
              \<lparr>u_activity := u_activity (user_of s u) @
                 [\<lparr>a_Type = TypeUserActivityGroupLeave, a_Message = Some m\<rparr>]\<rparr>)\<rparr>))"
  using assms
  by (simp add: ReadPump_def SetActivity_def update_user_def Let_def CommandUserConnect_def
      CommandMessageSend_def CommandGroupJoin_def CommandGroupLeave_def)

theorem not_connected_only_activity_witness:
  "u_channel (user_of NewServer 1) = None \<and>
   ReadPump 1 (direct_frame ''u2'' ''hi'') NewServer =
     Inr (NewServer\<lparr>user_of := (user_of NewServer)(1 := (user_of NewServer 1)
       \<lparr>u_activity := u_activity (user_of NewServer 1) @
          [\<lparr>a_Type = TypeUserActivityMessageSend,
            a_Message = Some (direct_frame ''u2'' ''hi'')\<rparr>]\<rparr>)\<rparr>) \<and>
   ReadPump 1 (join_frame ''g1'') NewServer =
     Inr (NewServer\<lparr>user_of := (user_of NewServer)(1 := (user_of NewServer 1)
       \<lparr>u_activity := u_activity (user_of NewServer 1) @
          [\<lparr>a_Type = TypeUserActivityGroupJoin, a_Message = Some (join_frame ''g1'')\<rparr>]\<rparr>)\<rparr>) \<and>
   ReadPump 1 (leave_frame ''g1'') NewServer =
     Inr (NewServer\<lparr>user_of := (user_of NewServer)(1 := (user_of NewServer 1)
       \<lparr>u_activity := u_activity (user_of NewServer 1) @
          [\<lparr>a_Type = TypeUserActivityGroupLeave, a_Message = Some (leave_frame ''g1'')\<rparr>]\<rparr>)\<rparr>)"
  using not_connected_only_activity [of NewServer 1 "direct_frame ''u2'' ''hi''"]
    not_connected_only_activity [of NewServer 1 "join_frame ''g1''"]
    not_connected_only_activity [of NewServer 1 "leave_frame ''g1''"]
  by (simp add: NewServer_def NewUser_def direct_frame_def join_frame_def leave_frame_def
      frame_def)

section \<open>Sending\<close>

lemma handleSendMessage_direct:
  "m_Message m = Some b \<Longrightarrow> m_Target m = Some t \<Longrightarrow> t_Type t = TypeTargetDirect \<Longrightarrow>
   handleSendMessage u m s = handleSendDirectMessage u m s"
  by (simp add: handleSendMessage_def)

lemma handleSendMessage_group:
  "m_Message m = Some b \<Longrightarrow> m_Target m = Some t \<Longrightarrow> t_Type t = TypeTargetGroup \<Longrightarrow>
   handleSendMessage u m s = handlerSendGroupMessage u m s"
  by (simp add: handleSendMessage_def TypeTargetGroup_def TypeTargetDirect_def)

text \<open>
  Claim C3. A direct send whose target user id the sender's channel does not resolve: the
  handler returns the state it was given with one frame more on the sender's queue, the
  envelope with \<open>status = false\<close> and the code \<open>userTargetNotConnected\<close>. The queue of
  every other user and the rest of the state are those of the state before.
\<close>

theorem direct_send_target_absent:
  assumes "m_Target m = Some t" and "t_User t = Some tu"
    and "u_channel (user_of s u) = Some c"
    and "findUserByID s c (ident_ID tu) = None"
  shows "handleSendDirectMessage u m s =
           Inr (s\<lparr>user_of := (user_of s)(u := (user_of s u)\<lparr>u_send := u_send (user_of s u) @
                 [m\<lparr>m_Response := Some \<lparr>r_Status = False,
                       r_Message = ResponseMessageUserTargetNotConnected\<rparr>,
                    m_User := Some (user_ident (user_of s u))\<rparr>]\<rparr>)\<rparr>)"
  using assms
  by (simp add: handleSendDirectMessage_def send_frame_def update_user_def response_def)

theorem direct_send_target_absent_witness:
  "m_Target (direct_frame ''ghost'' ''hi'') =
     Some \<lparr>t_Type = TypeTargetDirect, t_User = Some (ident_of_id ''ghost''), t_Group = None\<rparr> \<and>
   u_channel (user_of two_connected 1) = Some 0 \<and>
   findUserByID two_connected 0 ''ghost'' = None \<and>
   handleSendDirectMessage 1 (direct_frame ''ghost'' ''hi'') two_connected =
     Inr (two_connected\<lparr>user_of := (user_of two_connected)
            (1 := (user_of two_connected 1)\<lparr>u_send := u_send (user_of two_connected 1) @
               [(direct_frame ''ghost'' ''hi'')
                  \<lparr>m_Response := Some \<lparr>r_Status = False,
                      r_Message = ResponseMessageUserTargetNotConnected\<rparr>,
                   m_User := Some (ident_of_id ''u1'')\<rparr>]\<rparr>)\<rparr>)"
  using direct_send_target_absent [of "direct_frame ''ghost'' ''hi''"
      "\<lparr>t_Type = TypeTargetDirect, t_User = Some (ident_of_id ''ghost''), t_Group = None\<rparr>"
      "ident_of_id ''ghost''" two_connected 1 0]
  by (simp add: two_connected_def eval_defs)

text \<open>
  Claim C9. A group send whose group id the sender's channel does not resolve is dropped:
  the handler returns the state it was given, so no queue receives a frame, the sender's
  included.
\<close>

theorem group_send_group_absent:
  assumes "m_Target m = Some t" and "t_Group t = Some tg"
    and "u_channel (user_of s u) = Some c"
    and "findGroupByID s c (ident_ID tg) = None"
  shows "handlerSendGroupMessage u m s = Inr s"
  using assms by (simp add: handlerSendGroupMessage_def)

theorem group_send_group_absent_witness:
  "m_Target (group_frame ''g9'' ''hi'') =
     Some \<lparr>t_Type = TypeTargetGroup, t_User = None, t_Group = Some (ident_of_id ''g9'')\<rparr> \<and>
   u_channel (user_of two_in_group 1) = Some 0 \<and>
   findGroupByID two_in_group 0 ''g9'' = None \<and>
   handlerSendGroupMessage 1 (group_frame ''g9'' ''hi'') two_in_group = Inr two_in_group"
  using group_send_group_absent [of "group_frame ''g9'' ''hi''"
      "\<lparr>t_Type = TypeTargetGroup, t_User = None, t_Group = Some (ident_of_id ''g9'')\<rparr>"
      "ident_of_id ''g9''" two_in_group 1 0]
  by (simp add: two_in_group_def eval_defs)

text \<open>A send on an open queue is the plain send.\<close>

lemma send_frame_to_open:
  "\<not> u_send_closed (user_of s r) \<Longrightarrow> send_frame_to r m s = Inr (send_frame r m s)"
  by (simp add: send_frame_to_def)







text \<open>A user held by an entry of the membership map is counted at least once.\<close>

lemma member_counted:
  "(k, r) \<in> set members \<Longrightarrow> 0 < count_list (map snd members) r"
  by (induction members) auto




section \<open>Groups\<close>

text \<open>
  While the group has a member entered, the leave handler leaves the groups of the channel
  as they are: it reads the length before the group loop has deleted the leaving member.
\<close>

lemma handleGroupLeave_member_entered:
  assumes "u_channel (user_of s u) = Some c" and "m_Group m = Some mg"
    and "findGroupByID s c (ident_ID mg) = Some g"
    and "g_users (group_of s g) \<noteq> []"
  shows "\<exists>s'. handleGroupLeave u m s = Inr s' \<and>
           c_groups (channel_of s' c) = c_groups (channel_of s c)"
  using assms
  by (auto simp: handleGroupLeave_def store_defs loop_defs Let_def)

text \<open>
  Claim C6 says that when the last member leaves a group, the group is removed from its
  channel and a later join to the same id makes a new group. User \<open>u1\<close> connects to \<open>c1\<close>,
  joins \<open>g1\<close> and leaves \<open>g1\<close>: the handler reads the length 1, the group loop deletes the
  member after that, and \<open>g1\<close> still resolves to the group, which has no member. The user
  joins \<open>g1\<close> again: the same group is found and used, and no second group is made.
\<close>

theorem last_member_leave_keeps_group:
  "(case run [(1, connect_frame ''u1'' ''c1''), (1, join_frame ''g1''),
              (1, leave_frame ''g1'')] NewServer of
      Inl e \<Rightarrow> None
    | Inr s \<Rightarrow> Some (findGroupByID s 0 ''g1'', g_users (group_of s 0), groups_made s)) =
     Some (Some 0, [], 1) \<and>
   (case run [(1, connect_frame ''u1'' ''c1''), (1, join_frame ''g1''),
              (1, leave_frame ''g1''), (1, join_frame ''g1'')] NewServer of
      Inl e \<Rightarrow> None
    | Inr s \<Rightarrow> Some (findGroupByID s 0 ''g1'', g_users (group_of s 0), groups_made s)) =
     Some (Some 0, [(''u1'', 1)], 1)"
  by (simp add: eval_defs)

text \<open>
  The handlers of group-leave and of send answer a missing field with \<open>invalidPayload\<close>,
  as the handler of connect does.
\<close>

lemma handleGroupLeave_missing_group:
  "m_Group m = None \<Longrightarrow>
   handleGroupLeave u m s =
     Inr (send_frame u
            (m\<lparr>m_Response := Some \<lparr>r_Status = False,
                  r_Message = ResponseMessageInvalidPayload\<rparr>\<rparr>) s)"
  by (simp add: handleGroupLeave_def response_def)

lemma handleSendMessage_missing_field:
  "m_Message m = None \<or> m_Target m = None \<Longrightarrow>
   handleSendMessage u m s =
     Inr (send_frame u
            (m\<lparr>m_Response := Some \<lparr>r_Status = False,
                  r_Message = ResponseMessageInvalidPayload\<rparr>\<rparr>) s)"
  by (auto simp: handleSendMessage_def response_def split: option.splits)

text \<open>
  Claim C5 says that every command with a missing required field is answered with a
  \<open>status = false\<close> envelope. The handler of group-join has no branch for a missing group:
  it returns the state it was given, and the sender receives nothing.
\<close>

theorem group_join_missing_group_no_reply:
  "m_Group m = None \<Longrightarrow> handleGroupJoin u m s = Inr s"
  by (simp add: handleGroupJoin_def)

theorem group_join_missing_group_no_reply_witness:
  "m_Group (frame CommandGroupJoin) = None \<and>
   u_channel (user_of two_connected 1) = Some 0 \<and>
   handleGroupJoin 1 (frame CommandGroupJoin) two_connected = Inr two_connected \<and>
   ReadPump 1 (frame CommandGroupJoin) two_connected =
     Inr (SetActivity 1 TypeUserActivityGroupJoin (Some (frame CommandGroupJoin)) two_connected)"
proof -
  have none: "m_Group (frame CommandGroupJoin) = None"
    by (simp add: frame_def)
  have conn: "u_channel (user_of two_connected 1) = Some 0"
    by (simp add: two_connected_def eval_defs)
  have cmd: "m_Command (frame CommandGroupJoin) = CommandGroupJoin"
    by (simp add: frame_def)
  from group_join_missing_group_no_reply [OF none] none conn cmd
  show ?thesis
    by (simp add: ReadPump_def Let_def SetActivity_def update_user_def constant_defs)
qed

text \<open>
  The leave handler removes from the joined-set the entry keyed by the id of the user, not
  the one keyed by the id of the group.
\<close>

lemma handleGroupLeave_joined_set:
  assumes "u_channel (user_of s u) = Some c" and "m_Group m = Some mg"
    and "findGroupByID s c (ident_ID mg) = Some g"
    and "handleGroupLeave u m s = Inr s'"
  shows "u_groups (user_of s' u) = (u_groups (user_of s u))(u_ID (user_of s u) := None)"
  using assms
  by (auto simp: handleGroupLeave_def store_defs loop_defs Let_def)

text \<open>
  Claim C7 says that after a join and a leave of the group \<open>g\<close> the joined-set of the user
  has no entry keyed by \<open>g\<close>. User \<open>u1\<close> connects to \<open>c1\<close>, joins \<open>g1\<close> and leaves
  \<open>g1\<close>: the joined-set still maps \<open>g1\<close> to the group.
\<close>

theorem join_then_leave_keeps_entry:
  "(case run [(1, connect_frame ''u1'' ''c1''), (1, join_frame ''g1''),
              (1, leave_frame ''g1'')] NewServer of
      Inl e \<Rightarrow> None
    | Inr s \<Rightarrow> u_groups (user_of s 1) ''g1'') = Some 0"
  by (simp add: eval_defs)

end
